theory Spec2Isabelle
  imports Complex_Main "HOL-Library.Multiset" "HOL-Library.Word"
begin

section \<open>Sliding-window tiling and merging (utils/pred.py)\<close>

text \<open>
  The Python exceptions the module can raise are values of one datatype; a function that
  can raise returns \<open>error + 'a\<close> with \<open>Inl\<close> for the exception.
\<close>

datatype error =
  ZeroDivisionError | AssertionError | AttributeError | IndexError | ValueError | RuntimeError

subsection \<open>The window grid\<close>

text \<open>
  A window is the list \<open>[y1, y2, x1, x2]\<close> of the source, here a 4-tuple of Python
  integers. \<open>ceil_div a b\<close> is \<open>int(np.ceil(a / b))\<close> for \<open>b \<noteq> 0\<close>: the exact ceiling
  of the quotient (the float quotient of the source is exact enough for that whenever the
  extents stay below \<open>2 ^ 53\<close>). \<open>py_range n\<close> is \<open>range(n)\<close>, empty for \<open>n \<le> 0\<close>.
\<close>

type_synonym window = "int \<times> int \<times> int \<times> int"

definition ceil_div :: "int \<Rightarrow> int \<Rightarrow> int" where
  "ceil_div a b = - ((- a) div b)"

definition py_range :: "int \<Rightarrow> int list" where
  "py_range n = map int [0..<nat n]"

text \<open>
  Lines 36--44 of \<open>RSImageSlideWindowManager.__init__\<close> (the same loop is lines 89--100
  of \<open>ImageDataset._get_tile_coordinates\<close>, without the content test). The division by
  \<open>stride\<close> is a division of Python integers, which raises when the stride is zero.
\<close>

definition create_windows :: "int \<Rightarrow> int \<Rightarrow> int \<Rightarrow> int \<Rightarrow> error + window list" where
  "create_windows img_h img_w window_sz overlap =
     (let stride = window_sz - overlap in
      if stride = 0 then Inl ZeroDivisionError
      else
        let n_h = ceil_div (img_h - window_sz) stride + 1;
            n_w = ceil_div (img_w - window_sz) stride + 1
        in Inr (fold (\<lambda>i windows.
                  let dh = min (i * stride) (img_h - window_sz)
                  in fold (\<lambda>j windows.
                       let dw = min (j * stride) (img_w - window_sz)
                       in windows @ [(dh, dh + window_sz, dw, dw + window_sz)])
                     (py_range n_w) windows)
                (py_range n_h) []))"


fun inside :: "int \<Rightarrow> int \<Rightarrow> int \<Rightarrow> window \<Rightarrow> bool" where
  "inside H W T (y1, y2, x1, x2) \<longleftrightarrow>
     y2 - y1 = T \<and> x2 - x1 = T \<and> 0 \<le> y1 \<and> y2 \<le> H \<and> 0 \<le> x1 \<and> x2 \<le> W"


subsection \<open>Arrays and Python indexing\<close>

text \<open>
  A numpy array is its shape together with its elements in row-major order, so that
  \<open>ndim\<close>, indexing along the first axis and broadcasting are what they are in numpy.
  \<open>py_get\<close> is indexing of a Python sequence (a negative index counts from the end, an
  index out of range raises); \<open>slice_index\<close> clips one bound of a slice \<open>a:b\<close> over an
  axis of length \<open>n\<close> as Python does, and \<open>py_slice\<close> lists the indices that the slice
  selects (none when the clipped stop is not above the clipped start).
\<close>

record 'a ndarray =
  shape :: "nat list"
  data :: "'a list"

definition ndim :: "'a ndarray \<Rightarrow> nat" where
  "ndim a = length (shape a)"

definition py_get :: "'a list \<Rightarrow> int \<Rightarrow> error + 'a" where
  "py_get xs i =
     (if 0 \<le> i \<and> i < int (length xs) then Inr (xs ! nat i)
      else if i < 0 \<and> - int (length xs) \<le> i then Inr (xs ! nat (i + int (length xs)))
      else Inl IndexError)"

definition slice_index :: "nat \<Rightarrow> int \<Rightarrow> nat" where
  "slice_index n i = (if i < 0 then nat (max (i + int n) 0) else nat (min i (int n)))"

definition py_slice :: "nat \<Rightarrow> int \<Rightarrow> int \<Rightarrow> nat list" where
  "py_slice n a b = [slice_index n a..<slice_index n b]"

definition mapi :: "(nat \<Rightarrow> 'a \<Rightarrow> 'b) \<Rightarrow> 'a list \<Rightarrow> 'b list" where
  "mapi f xs = map (\<lambda>i. f i (xs ! i)) [0..<length xs]"

text \<open>\<open>a.max()\<close>: numpy raises on an array without elements.\<close>

fun amax :: "int list \<Rightarrow> error + int" where
  "amax [] = Inl ValueError"
| "amax (x # xs) = Inr (fold max xs x)"

text \<open>\<open>a.astype(np.uint8)\<close> on integer data keeps the low eight bits.\<close>

definition astype_uint8 :: "int ndarray \<Rightarrow> 8 word ndarray" where
  "astype_uint8 a = \<lparr>shape = shape a, data = map word_of_int (data a)\<rparr>"

subsection \<open>RSImageSlideWindowManager\<close>

text \<open>
  The two GDAL datasets are external. The input dataset is its two extents and its
  \<open>ReadAsArray(xoff, yoff, xsize, ysize)\<close>, an arbitrary function to integer blocks.
  The output dataset is created with \<open>GDT_Byte\<close> bands, each a list of \<open>YSize\<close> rows
  of \<open>XSize\<close> bytes; results handed to \<open>fit_result\<close> are byte arrays, so that no
  conversion by the driver is involved.
\<close>

record reader =
  RasterXSize :: int
  RasterYSize :: int
  ReadAsArray :: "int \<Rightarrow> int \<Rightarrow> int \<Rightarrow> int \<Rightarrow> int ndarray"

record writer =
  XSize :: nat
  YSize :: nat
  bands :: "8 word list list list"

text \<open>
  Modelled from the spec: \<open>write_band(handle, band_index, block, y_offset, x_offset)\<close> of
  the raster I/O collaborator, GDAL's \<open>Band.WriteArray(array, xoff, yoff)\<close>. It accepts a
  two-dimensional block that lies inside the band and copies it to the offset; any other
  block is refused.
\<close>

definition WriteArray :: "nat \<Rightarrow> nat \<Rightarrow> 8 word list list \<Rightarrow> 8 word ndarray \<Rightarrow> int \<Rightarrow> int
    \<Rightarrow> error + 8 word list list" where
  "WriteArray xs ys band array xoff yoff =
     (case shape array of
        [ysize, xsize] \<Rightarrow>
          if int xsize + xoff > int xs \<or> int ysize + yoff > int ys then Inl ValueError
          else if xoff < 0 \<or> yoff < 0 then Inl RuntimeError
          else Inr (mapi (\<lambda>y row. mapi (\<lambda>x v.
                  if nat yoff \<le> y \<and> y < nat yoff + ysize \<and> nat xoff \<le> x \<and> x < nat xoff + xsize
                  then data array ! ((y - nat yoff) * xsize + (x - nat xoff)) else v) row) band)
      | _ \<Rightarrow> Inl ValueError)"

record RSImageSlideWindowManager =
  window_sz :: int
  overlap :: int
  in_raster :: reader
  img_w :: int
  img_h :: int
  out_bands :: int
  out_raster :: writer
  windows :: "window list"
  window_i :: int

text \<open>
  \<open>__init__\<close>, after \<open>gdal.Open\<close> has returned the input dataset: the output raster is
  created zero-filled with \<open>out_bands\<close> byte bands of the input's extent, then the window
  list is built and the cursor set to 0.
\<close>

definition init :: "reader \<Rightarrow> int \<Rightarrow> int \<Rightarrow> int \<Rightarrow> error + RSImageSlideWindowManager" where
  "init rd n_bands T ov =
     (let w = RasterXSize rd; h = RasterYSize rd;
          out = \<lparr>XSize = nat w, YSize = nat h,
                 bands = replicate (nat n_bands) (replicate (nat h) (replicate (nat w) 0))\<rparr>
      in case create_windows h w T ov of
           Inl e \<Rightarrow> Inl e
         | Inr ws \<Rightarrow> Inr \<lparr>window_sz = T, overlap = ov, in_raster = rd, img_w = w, img_h = h,
                          out_bands = n_bands, out_raster = out, windows = ws, window_i = 0\<rparr>)"

definition len :: "RSImageSlideWindowManager \<Rightarrow> nat" where
  "len self = length (windows self)"

text \<open>
  \<open>get_next\<close> returns \<open>None\<close> at the end of the list; otherwise it reads the block of the
  current window, asserts \<open>im_data.max() <= 256\<close>, gives a two-dimensional block a
  leading axis, advances the cursor and returns the block as bytes. A raised exception
  leaves the cursor where it was.
\<close>

definition get_next :: "RSImageSlideWindowManager
    \<Rightarrow> (error + 8 word ndarray option) \<times> RSImageSlideWindowManager" where
  "get_next self =
     (if window_i self = int (length (windows self)) then (Inr None, self)
      else case py_get (windows self) (window_i self) of
        Inl e \<Rightarrow> (Inl e, self)
      | Inr (y1, y2, x1, x2) \<Rightarrow>
          let im_data = ReadAsArray (in_raster self) x1 y1 (window_sz self) (window_sz self)
          in case amax (data im_data) of
               Inl e \<Rightarrow> (Inl e, self)
             | Inr m \<Rightarrow>
                 if \<not> m \<le> 256 then (Inl AssertionError, self)
                 else
                   let im_data = (if ndim im_data = 2
                                  then im_data\<lparr>shape := 1 # shape im_data\<rparr> else im_data)
                   in (Inr (Some (astype_uint8 im_data)),
                       self\<lparr>window_i := window_i self + 1\<rparr>))"

text \<open>
  \<open>result[i, a:b, c:d]\<close> for a band index \<open>i\<close> from \<open>range(out_bands)\<close>: a
  two-dimensional block when \<open>result\<close> has three axes. With fewer axes numpy raises
  IndexError; with more, the block has more than two axes and \<open>WriteArray\<close> refuses it.
\<close>

definition band_slice :: "'a ndarray \<Rightarrow> nat \<Rightarrow> int \<Rightarrow> int \<Rightarrow> int \<Rightarrow> int \<Rightarrow> error + 'a ndarray" where
  "band_slice result i a b c d =
     (case shape result of
        n # h # w # rest \<Rightarrow>
          if \<not> i < n then Inl IndexError
          else if rest \<noteq> [] then Inl ValueError
          else
            let rows = py_slice h a b; cols = py_slice w c d
            in Inr \<lparr>shape = [length rows, length cols],
                    data = concat (map (\<lambda>r. map (\<lambda>c. data result ! ((i * h + r) * w + c)) cols) rows)\<rparr>
      | _ \<Rightarrow> Inl IndexError)"

text \<open>
  One round of the loop of \<open>fit_result\<close>: \<open>GetRasterBand(i + 1)\<close> (which yields no band
  beyond the raster's band count), the slice of \<open>result\<close>, and the write.
\<close>

definition write_band :: "8 word ndarray \<Rightarrow> int \<Rightarrow> int \<Rightarrow> int \<Rightarrow> int \<Rightarrow> int \<Rightarrow> int \<Rightarrow> int
    \<Rightarrow> writer \<Rightarrow> nat \<Rightarrow> error + writer" where
  "write_band result T dy1 dy2 dx1 dx2 x1 y1 out i =
     (if \<not> i < length (bands out) then Inl AttributeError
      else case band_slice result i dy1 (T - dy2) dx1 (T - dx2) of
        Inl e \<Rightarrow> Inl e
      | Inr block \<Rightarrow>
          (case WriteArray (XSize out) (YSize out) (bands out ! i) block (x1 + dx1) (y1 + dy1) of
             Inl e \<Rightarrow> Inl e
           | Inr b \<Rightarrow> Inr (out\<lparr>bands := (bands out)[i := b]\<rparr>)))"

fun write_bands :: "(writer \<Rightarrow> nat \<Rightarrow> error + writer) \<Rightarrow> writer \<Rightarrow> nat list
    \<Rightarrow> writer \<times> error option" where
  "write_bands f out [] = (out, None)"
| "write_bands f out (i # is) =
     (case f out i of
        Inl e \<Rightarrow> (out, Some e)
      | Inr out' \<Rightarrow> write_bands f out' is)"

text \<open>
  \<open>fit_result\<close>: the window is \<open>self.windows[self.window_i - 1]\<close>, a Python index. The
  bands are written one after the other, so an exception in a later band leaves the
  earlier bands written; the function returns the manager with the raster as it then is,
  and the exception if there was one.
\<close>

definition fit_result :: "RSImageSlideWindowManager \<Rightarrow> 8 word ndarray
    \<Rightarrow> RSImageSlideWindowManager \<times> error option" where
  "fit_result self result =
     (let index = window_i self - 1
      in case py_get (windows self) index of
        Inl e \<Rightarrow> (self, Some e)
      | Inr (y1, y2, x1, x2) \<Rightarrow>
          let dy1 = (if y1 = 0 then 0 else overlap self div 2);
              dy2 = (if y2 = img_h self then 0 else overlap self div 2);
              dx1 = (if x1 = 0 then 0 else overlap self div 2);
              dx2 = (if x2 = img_w self then 0 else overlap self div 2);
              (out, e) = write_bands (write_band result (window_sz self) dy1 dy2 dx1 dx2 x1 y1)
                           (out_raster self) [0..<nat (out_bands self)]
          in (self\<lparr>out_raster := out\<rparr>, e))"

text \<open>
  What C7 says of one band: \<open>paste result b T y1 x1 ya yb xa xb band\<close> is \<open>band\<close> with
  each pixel \<open>(y, x)\<close> of the region \<open>[ya,yb) \<times> [xa,xb)\<close> replaced by
  \<open>result[b, y - y1, x - x1]\<close> (\<open>result\<close> having \<open>T\<close> rows and columns per band), and
  every other pixel as it was.
\<close>

definition paste :: "8 word ndarray \<Rightarrow> nat \<Rightarrow> nat \<Rightarrow> int \<Rightarrow> int \<Rightarrow> int \<Rightarrow> int \<Rightarrow> int \<Rightarrow> int
    \<Rightarrow> 8 word list list \<Rightarrow> 8 word list list" where
  "paste result b T y1 x1 ya yb xa xb band =
     mapi (\<lambda>y row. mapi (\<lambda>x v.
        if ya \<le> int y \<and> int y < yb \<and> xa \<le> int x \<and> int x < xb
        then data result ! ((b * T + nat (int y - y1)) * T + nat (int x - x1)) else v) row) band"

subsection \<open>ImageDataset\<close>







subsection \<open>The patch weight kernel\<close>

text \<open>
  Lines 131--135: a matrix of ones, here of the padded shape \<open>(hp, wp)\<close>, whose first
  and last row and first and last column are set to zero. A matrix is the list of its
  rows.
\<close>

definition bordered_ones :: "nat \<Rightarrow> nat \<Rightarrow> nat list list" where
  "bordered_ones hp wp =
     (let m0 = replicate hp (replicate wp (1::nat));
          m1 = m0[0 := replicate wp 0];
          m2 = m1[length m1 - 1 := replicate wp 0];
          m3 = map (\<lambda>row. row[0 := 0]) m2;
          m4 = map (\<lambda>row. row[length row - 1 := 0]) m3
      in m4)"

text \<open>
  Modelled from the spec: \<open>scipy.ndimage.distance_transform_edt\<close>, a library function
  outside the repository. ``Compute the Euclidean distance transform: each interior
  cell's value becomes its distance to the nearest zero cell''; a zero cell stays 0.
  \<open>zero_cells\<close> lists the positions of the zero cells, \<open>sq_dist\<close> is the squared
  Euclidean distance of two positions. The input of the module always has zero cells.
\<close>

definition zero_cells :: "nat list list \<Rightarrow> (nat \<times> nat) list" where
  "zero_cells m =
     concat (map (\<lambda>i. concat (map (\<lambda>j. if m ! i ! j = 0 then [(i, j)] else [])
                                 [0..<length (m ! i)])) [0..<length m])"

definition sq_dist :: "nat \<Rightarrow> nat \<Rightarrow> nat \<times> nat \<Rightarrow> int" where
  "sq_dist i j z = (int i - int (fst z))\<^sup>2 + (int j - int (snd z))\<^sup>2"

definition distance_transform_edt :: "nat list list \<Rightarrow> real list list" where
  "distance_transform_edt m =
     mapi (\<lambda>i row. mapi (\<lambda>j v.
        if v = 0 then 0 else sqrt (real_of_int (min_list (map (sq_dist i j) (zero_cells m))))) row) m"

text \<open>Line 137, \<open>patch_weights[1:-1, 1:-1]\<close>: the one-pixel border is cut off again.\<close>

definition crop :: "'a list list \<Rightarrow> 'a list list" where
  "crop m = map (\<lambda>row. butlast (tl row)) (butlast (tl m))"

text \<open>
  Lines 131--137 without the leading unit axis. \<open>np.ones\<close> raises on a negative extent,
  and the assignments to row 0 and column 0 raise on a matrix without rows or columns.
\<close>

definition kernel :: "int \<Rightarrow> int \<Rightarrow> error + real list list" where
  "kernel patch_height patch_width =
     (let hp = patch_height + 2; wp = patch_width + 2
      in if hp < 0 \<or> wp < 0 then Inl ValueError
         else if hp = 0 \<or> wp = 0 then Inl IndexError
         else Inr (crop (distance_transform_edt (bordered_ones (nat hp) (nat wp)))))"

subsection \<open>WeightedPredictManager\<close>

text \<open>
  The buffers hold exact reals: the theorems below are about the arithmetic of the
  accumulation, not about the rounding of the 16-bit floats the module stores.
  \<open>map_buf\<close> is the field \<open>map\<close> of the source.
\<close>

record WeightedPredictManager =
  map_h :: int
  map_w :: int
  map_c :: int
  patch_h :: int
  patch_w :: int
  map_buf :: "real ndarray"
  weight_map :: "real ndarray"
  patch_weights :: "real ndarray"

text \<open>\<open>np.zeros((c, h, w))\<close> raises on a negative extent.\<close>

definition zeros :: "int \<Rightarrow> int \<Rightarrow> int \<Rightarrow> error + real ndarray" where
  "zeros c h w =
     (if c < 0 \<or> h < 0 \<or> w < 0 then Inl ValueError
      else Inr \<lparr>shape = [nat c, nat h, nat w], data = replicate (nat c * nat h * nat w) 0\<rparr>)"

definition WeightedPredictManager_init :: "int \<Rightarrow> int \<Rightarrow> int \<Rightarrow> int \<Rightarrow> int
    \<Rightarrow> error + WeightedPredictManager" where
  "WeightedPredictManager_init map_height map_width map_channel patch_height patch_width =
     (case zeros map_channel map_height map_width of
        Inl e \<Rightarrow> Inl e
      | Inr m \<Rightarrow>
          (case zeros 1 map_height map_width of
             Inl e \<Rightarrow> Inl e
           | Inr wm \<Rightarrow>
               (case kernel patch_height patch_width of
                  Inl e \<Rightarrow> Inl e
                | Inr k \<Rightarrow>
                    Inr \<lparr>map_h = map_height, map_w = map_width, map_c = map_channel,
                         patch_h = patch_height, patch_w = patch_width,
                         map_buf = m, weight_map = wm,
                         patch_weights = \<lparr>shape = [1, nat patch_height, nat patch_width],
                                          data = concat k\<rparr>\<rparr>)))"

text \<open>
  Broadcasting. \<open>bget a c y x\<close> reads a three-axis array at a position of the broadcast
  shape: along an axis of length 1 the only element is read. \<open>broadcast_dim\<close> is the
  length of the common axis of two operands, if they are compatible. \<open>mul_broadcast\<close> is
  \<open>self.patch_weights * pred\<close>.
\<close>

definition bget :: "real ndarray \<Rightarrow> nat \<Rightarrow> nat \<Rightarrow> nat \<Rightarrow> real" where
  "bget a c y x =
     (case shape a of
        [n, h, w] \<Rightarrow>
          data a ! (((if n = 1 then 0 else c) * h + (if h = 1 then 0 else y)) * w
                    + (if w = 1 then 0 else x))
      | _ \<Rightarrow> 0)"

definition broadcast_dim :: "nat \<Rightarrow> nat \<Rightarrow> nat option" where
  "broadcast_dim a b =
     (if a = b then Some a else if a = 1 then Some b else if b = 1 then Some a else None)"

definition mul_broadcast :: "real ndarray \<Rightarrow> real ndarray \<Rightarrow> error + real ndarray" where
  "mul_broadcast a b =
     (case (shape a, shape b) of
        ([an, ah, aw], [bn, bh, bw]) \<Rightarrow>
          (case (broadcast_dim an bn, broadcast_dim ah bh, broadcast_dim aw bw) of
             (Some n, Some h, Some w) \<Rightarrow>
               Inr \<lparr>shape = [n, h, w],
                    data = concat (map (\<lambda>c. concat (map (\<lambda>y.
                             map (\<lambda>x. bget a c y x * bget b c y x) [0..<w]) [0..<h])) [0..<n])\<rparr>
           | _ \<Rightarrow> Inl ValueError)
      | _ \<Rightarrow> Inl ValueError)"

text \<open>
  \<open>target[:, y1:y2, x1:x2] += src\<close> on a three-axis buffer: \<open>src\<close> must broadcast to the
  shape of the slice, else numpy raises and the buffer is untouched; the elements of the
  slice are increased in place, the others are left alone. The flat position \<open>k\<close> of a
  buffer of shape \<open>(tc, th, tw)\<close> is the element \<open>(k div (th * tw), (k div tw) mod th,
  k mod tw)\<close>. The buffers, the kernel and the patches of a four-axis batch have three
  axes; operands of another rank, which the module never builds, are refused.
\<close>

definition iadd_slice :: "real ndarray \<Rightarrow> int \<Rightarrow> int \<Rightarrow> int \<Rightarrow> int \<Rightarrow> real ndarray
    \<Rightarrow> error + real ndarray" where
  "iadd_slice target y1 y2 x1 x2 src =
     (case (shape target, shape src) of
        ([tc, th, tw], [sc, sh, sw]) \<Rightarrow>
          let ys = slice_index th y1; ye = max ys (slice_index th y2);
              xs = slice_index tw x1; xe = max xs (slice_index tw x2)
          in if (sc = tc \<or> sc = 1) \<and> (sh = ye - ys \<or> sh = 1) \<and> (sw = xe - xs \<or> sw = 1)
             then Inr (target\<lparr>data := mapi (\<lambda>k v.
                    let c = k div (th * tw); y = (k div tw) mod th; x = k mod tw
                    in if ys \<le> y \<and> y < ye \<and> xs \<le> x \<and> x < xe
                       then v + bget src c (y - ys) (x - xs) else v) (data target)\<rparr>)
             else Inl ValueError
      | _ \<Rightarrow> Inl ValueError)"

text \<open>\<open>preds[i]\<close> for \<open>i\<close> from \<open>range(preds.shape[0])\<close>.\<close>

definition subarray :: "'a ndarray \<Rightarrow> nat \<Rightarrow> 'a ndarray" where
  "subarray a i =
     (let sz = prod_list (tl (shape a))
      in \<lparr>shape = tl (shape a), data = take sz (drop (i * sz) (data a))\<rparr>)"

text \<open>
  The body of the loop of \<open>update\<close> for one entry: the assertion on the window, then the
  two in-place additions in the order of the source.
\<close>

definition update_entry :: "WeightedPredictManager \<Rightarrow> real ndarray \<Rightarrow> window
    \<Rightarrow> WeightedPredictManager \<times> error option" where
  "update_entry self pred win =
     (case win of (y1, y2, x1, x2) \<Rightarrow>
        if \<not> (y1 + patch_h self \<le> map_h self \<and> x1 + patch_w self \<le> map_w self)
        then (self, Some AssertionError)
        else
          (case mul_broadcast (patch_weights self) pred of
             Inl e \<Rightarrow> (self, Some e)
           | Inr src \<Rightarrow>
               (case iadd_slice (map_buf self) y1 (y1 + patch_h self) x1 (x1 + patch_w self) src of
                  Inl e \<Rightarrow> (self, Some e)
                | Inr m \<Rightarrow>
                    (case iadd_slice (weight_map self) y1 (y1 + patch_h self)
                            x1 (x1 + patch_w self) (patch_weights self) of
                       Inl e \<Rightarrow> (self\<lparr>map_buf := m\<rparr>, Some e)
                     | Inr wm \<Rightarrow> (self\<lparr>map_buf := m, weight_map := wm\<rparr>, None)))))"

fun update_loop :: "WeightedPredictManager \<Rightarrow> real ndarray \<Rightarrow> window list \<Rightarrow> nat list
    \<Rightarrow> WeightedPredictManager \<times> error option" where
  "update_loop self preds wins [] = (self, None)"
| "update_loop self preds wins (i # is) =
     (case py_get wins (int i) of
        Inl e \<Rightarrow> (self, Some e)
      | Inr win \<Rightarrow>
          (case update_entry self (subarray preds i) win of
             (self', Some e) \<Rightarrow> (self', Some e)
           | (self', None) \<Rightarrow> update_loop self' preds wins is))"

text \<open>
  \<open>update\<close>. When \<open>preds.ndim\<close> is not 4 the failing \<open>assert\<close> evaluates its message
  \<open>preds.shpae\<close>, an attribute that no array has, so the exception is an AttributeError.
\<close>

definition update :: "WeightedPredictManager \<Rightarrow> real ndarray \<Rightarrow> window list
    \<Rightarrow> WeightedPredictManager \<times> error option" where
  "update self preds wins =
     (if ndim preds \<noteq> 4 then (self, Some AttributeError)
      else update_loop self preds wins [0..<hd (shape preds)])"




subsection \<open>Notions for the statements about the accumulator\<close>

text \<open>
  \<open>invar\<close> is what \<open>__init__\<close> establishes for non-negative patch extents and what
  \<open>update\<close> keeps: the extents are not negative and the three arrays have the shapes
  \<open>(C, H, W)\<close>, \<open>(1, H, W)\<close> and \<open>(1, ph, pw)\<close>. A window \<open>fits\<close> when it lies inside
  the buffers from its origin on; a patch is \<open>patch_like\<close> when it has the shape
  \<open>(C, ph, pw)\<close>. \<open>take_entries k preds\<close> is \<open>preds[:k]\<close>.
\<close>

definition invar :: "WeightedPredictManager \<Rightarrow> bool" where
  "invar self \<longleftrightarrow>
     0 \<le> map_c self \<and> 0 \<le> map_h self \<and> 0 \<le> map_w self \<and> 0 \<le> patch_h self \<and> 0 \<le> patch_w self
     \<and> shape (map_buf self) = [nat (map_c self), nat (map_h self), nat (map_w self)]
     \<and> shape (weight_map self) = [1, nat (map_h self), nat (map_w self)]
     \<and> shape (patch_weights self) = [1, nat (patch_h self), nat (patch_w self)]"









subsection \<open>Example objects\<close>

text \<open>
  A single-band input raster of 3 rows and 4 columns whose pixel \<open>(y, x)\<close> is
  \<open>256 - y - x\<close>, the manager that \<open>__init__\<close> builds over it for one output band,
  windows of size 3 and overlap 2, and the accumulator that \<open>__init__\<close> builds for a
  3 by 3 map with one channel and 2 by 2 patches.
\<close>

definition example_reader :: reader where
  "example_reader =
     \<lparr>RasterXSize = 4, RasterYSize = 3,
      ReadAsArray = (\<lambda>xoff yoff xsize ysize.
        \<lparr>shape = [nat ysize, nat xsize],
         data = concat (map (\<lambda>r. map (\<lambda>c. 256 - (yoff + int r) - (xoff + int c))
                                   [0..<nat xsize]) [0..<nat ysize])\<rparr>)\<rparr>"

definition example_source :: RSImageSlideWindowManager where
  "example_source =
     \<lparr>window_sz = 3, overlap = 2, in_raster = example_reader, img_w = 4, img_h = 3,
      out_bands = 1,
      out_raster = \<lparr>XSize = 4, YSize = 3, bands = [[[0, 0, 0, 0], [0, 0, 0, 0], [0, 0, 0, 0]]]\<rparr>,
      windows = [(0, 3, 0, 3), (0, 3, 1, 4)], window_i = 0\<rparr>"

definition example_manager :: WeightedPredictManager where
  "example_manager =
     \<lparr>map_h = 3, map_w = 3, map_c = 1, patch_h = 2, patch_w = 2,
      map_buf = \<lparr>shape = [1, 3, 3], data = [0, 0, 0, 0, 0, 0, 0, 0, 0]\<rparr>,
      weight_map = \<lparr>shape = [1, 3, 3], data = [0, 0, 0, 0, 0, 0, 0, 0, 0]\<rparr>,
      patch_weights = \<lparr>shape = [1, 2, 2], data = [1, 1, 1, 1]\<rparr>\<rparr>"

section \<open>Lists, indices and slices\<close>





lemma length_mapi [simp]: "length (mapi f xs) = length xs"
  by (simp add: mapi_def)

lemma nth_mapi [simp]: "i < length xs \<Longrightarrow> mapi f xs ! i = f i (xs ! i)"
  by (simp add: mapi_def)

lemma mapi_cong:
  "(\<And>i. i < length xs \<Longrightarrow> f i (xs ! i) = g i (xs ! i)) \<Longrightarrow> mapi f xs = mapi g xs"
  by (simp add: mapi_def)

lemma mapi_mapi: "mapi f (mapi g xs) = mapi (\<lambda>i v. f i (g i v)) xs"
  by (simp add: mapi_def)



lemma nth_concat_rows:
  assumes "\<forall>row \<in> set rows. length row = n" and "r < length rows" and "c < n"
  shows "concat rows ! (r * n + c) = rows ! r ! c"
  using assms
proof (induction rows arbitrary: r)
  case Nil
  then show ?case by simp
next
  case (Cons row rows)
  show ?case
  proof (cases r)
    case 0
    then show ?thesis using Cons.prems by (simp add: nth_append)
  next
    case (Suc r')
    have "concat (row # rows) ! (r * n + c) = concat rows ! (r' * n + c)"
      using Cons.prems Suc by (simp add: nth_append)
    also have "\<dots> = rows ! r' ! c"
      using Cons.prems Suc by (intro Cons.IH) simp_all
    finally show ?thesis using Suc by simp
  qed
qed


lemma slice_index_inside: "0 \<le> a \<Longrightarrow> a \<le> int n \<Longrightarrow> slice_index n a = nat a"
  by (simp add: slice_index_def)

lemma py_get_last:
  "xs \<noteq> [] \<Longrightarrow> py_get xs (- 1) = py_get xs (int (length xs) - 1)"
  by (cases xs) (simp_all add: py_get_def)


section \<open>Properties of the window grid\<close>













section \<open>Properties of the tile dataset\<close>




section \<open>Properties of the weight kernel\<close>

lemma length_bordered_ones: "length (bordered_ones hp wp) = hp"
  by (simp add: bordered_ones_def Let_def)

lemma length_row_bordered_ones:
  "i < hp \<Longrightarrow> length (bordered_ones hp wp ! i) = wp"
  by (simp add: bordered_ones_def Let_def nth_list_update)

lemma nth_bordered_ones:
  assumes "i < hp" "j < wp"
  shows "bordered_ones hp wp ! i ! j = (if i = 0 \<or> i = hp - 1 \<or> j = 0 \<or> j = wp - 1 then 0 else 1)"
  using assms by (simp add: bordered_ones_def Let_def nth_list_update)

lemma set_zero_cells:
  "set (zero_cells m) = {(i, j). i < length m \<and> j < length (m ! i) \<and> m ! i ! j = 0}"
  by (auto simp: zero_cells_def split: if_splits)

lemma nth_edt:
  assumes "i < length m" "j < length (m ! i)"
  shows "distance_transform_edt m ! i ! j =
     (if m ! i ! j = 0 then 0
      else sqrt (real_of_int (min_list (map (sq_dist i j) (zero_cells m)))))"
  using assms by (simp add: distance_transform_edt_def)

lemma length_edt: "length (distance_transform_edt m) = length m"
  by (simp add: distance_transform_edt_def)

lemma length_row_edt: "i < length m \<Longrightarrow> length (distance_transform_edt m ! i) = length (m ! i)"
  by (simp add: distance_transform_edt_def)

lemma length_crop: "length (crop m) = length m - 2"
  by (simp add: crop_def)

lemma nth_crop_row:
  assumes "r < length m - 2"
  shows "crop m ! r = butlast (tl (m ! Suc r))"
proof -
  have "r < length (butlast (tl m))" using assms by simp
  then have "crop m ! r = butlast (tl (butlast (tl m) ! r))"
    by (simp add: crop_def)
  also have "butlast (tl m) ! r = tl m ! r"
    using assms by (simp add: nth_butlast)
  also have "tl m ! r = m ! Suc r"
    using assms by (simp add: nth_tl)
  finally show ?thesis .
qed

lemma nth_crop:
  assumes "r < length m - 2" "c < length (m ! Suc r) - 2"
  shows "crop m ! r ! c = m ! Suc r ! Suc c"
proof -
  have "butlast (tl (m ! Suc r)) ! c = tl (m ! Suc r) ! c"
    using assms by (simp add: nth_butlast)
  also have "\<dots> = m ! Suc r ! Suc c"
    using assms by (simp add: nth_tl)
  finally show ?thesis by (simp add: nth_crop_row [OF assms(1)])
qed

lemma sq_dist_pos:
  assumes "z \<noteq> (i, j)"
  shows "1 \<le> sq_dist i j z"
proof -
  have "int i - int (fst z) \<noteq> 0 \<or> int j - int (snd z) \<noteq> 0"
    using assms by (cases z) auto
  then have "0 < (int i - int (fst z))\<^sup>2 \<or> 0 < (int j - int (snd z))\<^sup>2"
    by auto
  moreover have "0 \<le> (int i - int (fst z))\<^sup>2" "0 \<le> (int j - int (snd z))\<^sup>2"
    by simp_all
  ultimately show ?thesis unfolding sq_dist_def by linarith
qed

text \<open>A non-zero cell next to a zero cell is at distance 1.\<close>

lemma edt_next_to_zero:
  assumes i: "i < length m" and j: "j < length (m ! i)" and nz: "m ! i ! j \<noteq> 0"
    and z: "z \<in> set (zero_cells m)" and d: "sq_dist i j z = 1"
  shows "distance_transform_edt m ! i ! j = 1"
proof -
  let ?ds = "map (sq_dist i j) (zero_cells m)"
  have ne: "?ds \<noteq> []" using z by auto
  have "Min (set ?ds) = 1"
  proof (rule Min_eqI)
    show "finite (set ?ds)" by simp
    show "1 \<in> set ?ds" using z d by force
    fix y assume "y \<in> set ?ds"
    then obtain z' where z': "z' \<in> set (zero_cells m)" and y: "y = sq_dist i j z'" by auto
    have "z' \<noteq> (i, j)" using z' nz by (auto simp: set_zero_cells)
    then show "1 \<le> y" unfolding y by (rule sq_dist_pos)
  qed
  then have "min_list ?ds = 1" using ne by (simp add: min_list_Min)
  then show ?thesis using nz by (simp add: nth_edt [OF i j])
qed

text \<open>
  C3 (as amended): for every patch shape \<open>(ph, pw)\<close> with \<open>ph \<ge> 1\<close> and
  \<open>pw \<ge> 1\<close> the kernel has \<open>ph\<close> rows of \<open>pw\<close> cells, and its value is 1 at
  every cell of the outermost ring: the zeroed border lies in the padding that is cut off,
  one step outside the ring.
\<close>

theorem kernel_ring_one:
  assumes "1 \<le> ph" and "1 \<le> pw"
  shows "\<exists>K. kernel ph pw = Inr K \<and> length K = nat ph
           \<and> (\<forall>r < nat ph. length (K ! r) = nat pw
                \<and> (\<forall>c < nat pw. (r = 0 \<or> r = nat ph - 1 \<or> c = 0 \<or> c = nat pw - 1)
                       \<longrightarrow> K ! r ! c = 1))"
proof -
  define hp where "hp = nat (ph + 2)"
  define wp where "wp = nat (pw + 2)"
  define m where "m = bordered_ones hp wp"
  define K where "K = crop (distance_transform_edt m)"
  have hp: "hp = nat ph + 2" and wp: "wp = nat pw + 2" and p: "0 < nat ph" "0 < nat pw"
    using assms by (simp_all add: hp_def wp_def)
  have ker: "kernel ph pw = Inr K"
    using assms by (simp add: kernel_def Let_def K_def m_def hp_def wp_def)
  have lm: "length m = hp" by (simp add: m_def length_bordered_ones)
  have lr: "length (m ! i) = wp" if "i < hp" for i
    using that by (simp add: m_def length_row_bordered_ones)
  have lK: "length K = nat ph"
    by (simp add: K_def length_crop length_edt lm hp)
  have rows: "length (K ! r) = nat pw" if "r < nat ph" for r
  proof -
    have "K ! r = butlast (tl (distance_transform_edt m ! Suc r))"
      unfolding K_def using that by (intro nth_crop_row) (simp add: length_edt lm hp)
    moreover have "length (distance_transform_edt m ! Suc r) = wp"
      using that by (simp add: length_row_edt lm hp lr)
    ultimately show ?thesis by (simp add: wp)
  qed
  have ring: "K ! r ! c = 1"
    if r: "r < nat ph" and c: "c < nat pw"
      and edge: "r = 0 \<or> r = nat ph - 1 \<or> c = 0 \<or> c = nat pw - 1" for r c
  proof -
    have i: "Suc r < length m" using r by (simp add: lm hp)
    have j: "Suc c < length (m ! Suc r)" using r c by (simp add: lr hp wp)
    have Kv: "K ! r ! c = distance_transform_edt m ! Suc r ! Suc c"
      unfolding K_def using r c
      by (intro nth_crop) (simp_all add: length_edt length_row_edt lm lr hp wp)
    have nz: "m ! Suc r ! Suc c \<noteq> 0"
      using r c by (simp add: m_def nth_bordered_ones hp wp)
    have zc: "(a, b) \<in> set (zero_cells m)"
      if "a < hp" "b < wp" "a = 0 \<or> a = hp - 1 \<or> b = 0 \<or> b = wp - 1" for a b
    proof -
      have "m ! a ! b = 0"
        unfolding m_def nth_bordered_ones [OF that(1,2)] using that(3) by simp
      moreover have "a < length m" "b < length (m ! a)" using that by (simp_all add: lm lr)
      ultimately show ?thesis by (simp add: set_zero_cells)
    qed
    from edge consider "r = 0" | "r = nat ph - 1" | "c = 0" | "c = nat pw - 1" by blast
    then obtain z where "z \<in> set (zero_cells m)" and "sq_dist (Suc r) (Suc c) z = 1"
    proof cases
      case 1
      have "(0, Suc c) \<in> set (zero_cells m)" using c by (intro zc) (simp_all add: hp wp)
      moreover have "sq_dist (Suc r) (Suc c) (0, Suc c) = 1" using 1 by (simp add: sq_dist_def)
      ultimately show ?thesis using that by blast
    next
      case 2
      have "(hp - 1, Suc c) \<in> set (zero_cells m)" using c by (intro zc) (simp_all add: hp wp)
      moreover have "sq_dist (Suc r) (Suc c) (hp - 1, Suc c) = 1"
        using 2 p by (simp add: sq_dist_def hp power2_eq_square)
      ultimately show ?thesis using that by blast
    next
      case 3
      have "(Suc r, 0) \<in> set (zero_cells m)" using r by (intro zc) (simp_all add: hp wp)
      moreover have "sq_dist (Suc r) (Suc c) (Suc r, 0) = 1" using 3 by (simp add: sq_dist_def)
      ultimately show ?thesis using that by blast
    next
      case 4
      have "(Suc r, wp - 1) \<in> set (zero_cells m)" using r by (intro zc) (simp_all add: hp wp)
      moreover have "sq_dist (Suc r) (Suc c) (Suc r, wp - 1) = 1"
        using 4 p by (simp add: sq_dist_def wp power2_eq_square)
      ultimately show ?thesis using that by blast
    qed
    then show ?thesis unfolding Kv by (rule edt_next_to_zero [OF i j nz])
  qed
  show ?thesis using ker lK rows ring by blast
qed

theorem kernel_ring_one_witness:
  "(1::int) \<le> 2 \<and> (\<exists>K. kernel 2 2 = Inr K \<and> length K = 2 \<and> length (K ! 0) = 2 \<and> K ! 0 ! 1 = 1)"
  using kernel_ring_one [of 2 2] by force

text \<open>
  C3 as stated asks for the value 0 on the ring. For a 3 by 3 patch every ring cell of the
  kernel is 1 and the centre is 2.
\<close>

theorem kernel_3_3:
  "(1::int) \<le> 3 \<and> kernel 3 3 = Inr [[1, 1, 1], [1, 2, 1], [1, 1, 1]]"
  by (simp add: kernel_def bordered_ones_def Let_def zero_cells_def distance_transform_edt_def mapi_def crop_def sq_dist_def upt_rec numeral_eq_Suc)

section \<open>Properties of the streaming source\<close>

lemma init_example_source: "init example_reader 1 3 2 = Inr example_source"
  by (simp add: init_def example_source_def create_windows_def ceil_div_def py_range_def upt_rec
      example_reader_def numeral_eq_Suc)

text \<open>The slice of a band of a three-axis result, read at a position.\<close>

lemma band_slice_inside:
  assumes sh: "shape result = [n, h, w]" and i: "i < n"
    and a: "0 \<le> a" "a \<le> b" "b \<le> int h" and c: "0 \<le> c" "c \<le> d" "d \<le> int w"
  shows "\<exists>blk. band_slice result i a b c d = Inr blk
           \<and> shape blk = [nat (b - a), nat (d - c)]
           \<and> (\<forall>r < nat (b - a). \<forall>k < nat (d - c).
                 data blk ! (r * nat (d - c) + k)
                   = data result ! ((i * h + (nat a + r)) * w + (nat c + k)))"
proof -
  let ?rows = "[nat a..<nat b]" and ?cols = "[nat c..<nat d]"
  let ?rs = "map (\<lambda>r. map (\<lambda>c. data result ! ((i * h + r) * w + c)) ?cols) ?rows"
  have ps: "py_slice h a b = ?rows" "py_slice w c d = ?cols"
    using a c by (simp_all add: py_slice_def slice_index_inside)
  have lr: "length ?rows = nat (b - a)" and lc: "length ?cols = nat (d - c)"
    using a c by simp_all
  have bs: "band_slice result i a b c d = Inr \<lparr>shape = [nat (b - a), nat (d - c)], data = concat ?rs\<rparr>"
    using sh i lr lc by (simp add: band_slice_def ps Let_def del: length_upt)
  have rd: "concat ?rs ! (r * nat (d - c) + k) = data result ! ((i * h + (nat a + r)) * w + (nat c + k))"
    if "r < nat (b - a)" "k < nat (d - c)" for r k
  proof -
    have "concat ?rs ! (r * nat (d - c) + k) = ?rs ! r ! k"
      using that lr lc by (intro nth_concat_rows) (auto simp del: length_upt)
    also have "\<dots> = data result ! ((i * h + (nat a + r)) * w + (nat c + k))"
    proof -
      have "nat a + r < nat b" "nat c + k < nat d" using that a c by linarith+
      then show ?thesis using that lr lc by simp
    qed
    finally show ?thesis .
  qed
  show ?thesis using bs rd by simp
qed

lemma WriteArray_inside:
  assumes "shape blk = [ysize, xsize]" and "0 \<le> xoff" "0 \<le> yoff"
    and "int xsize + xoff \<le> int xs" "int ysize + yoff \<le> int ys"
  shows "WriteArray xs ys band blk xoff yoff =
     Inr (mapi (\<lambda>y row. mapi (\<lambda>x v.
            if nat yoff \<le> y \<and> y < nat yoff + ysize \<and> nat xoff \<le> x \<and> x < nat xoff + xsize
            then data blk ! ((y - nat yoff) * xsize + (x - nat xoff)) else v) row) band)"
  using assms by (simp add: WriteArray_def)

lemma write_band_paste:
  assumes sh: "shape result = [n, nat T, nat T]" and i: "i < n" "i < length (bands out)"
    and sz: "XSize out = nat W" "YSize out = nat H"
    and ty: "0 \<le> dy1" "0 \<le> dy2" "dy1 + dy2 \<le> T"
    and tx: "0 \<le> dx1" "0 \<le> dx2" "dx1 + dx2 \<le> T"
    and wy: "0 \<le> y1" "y1 + T \<le> H" and wx: "0 \<le> x1" "x1 + T \<le> W"
  shows "write_band result T dy1 dy2 dx1 dx2 x1 y1 out i =
     Inr (out\<lparr>bands := (bands out)[i := paste result i (nat T) y1 x1
            (y1 + dy1) (y1 + T - dy2) (x1 + dx1) (x1 + T - dx2) (bands out ! i)]\<rparr>)"
proof -
  define ysize where "ysize = nat (T - dy2 - dy1)"
  define xsize where "xsize = nat (T - dx2 - dx1)"
  have T0: "0 \<le> T" using ty by linarith
  obtain blk where bs: "band_slice result i dy1 (T - dy2) dx1 (T - dx2) = Inr blk"
    and shb: "shape blk = [ysize, xsize]"
    and rd: "\<And>r k. r < ysize \<Longrightarrow> k < xsize \<Longrightarrow>
               data blk ! (r * xsize + k)
                 = data result ! ((i * nat T + (nat dy1 + r)) * nat T + (nat dx1 + k))"
    using band_slice_inside [OF sh i(1), of dy1 "T - dy2" dx1 "T - dx2"] ty tx T0
    unfolding ysize_def xsize_def by auto
  have fit: "int xsize + (x1 + dx1) \<le> int (nat W)" "int ysize + (y1 + dy1) \<le> int (nat H)"
    using ty tx wy wx by (simp_all add: xsize_def ysize_def)
  have off: "0 \<le> x1 + dx1" "0 \<le> y1 + dy1" using ty tx wy wx by simp_all
  have wa: "WriteArray (XSize out) (YSize out) (bands out ! i) blk (x1 + dx1) (y1 + dy1) =
     Inr (mapi (\<lambda>y row. mapi (\<lambda>x v.
            if nat (y1 + dy1) \<le> y \<and> y < nat (y1 + dy1) + ysize
               \<and> nat (x1 + dx1) \<le> x \<and> x < nat (x1 + dx1) + xsize
            then data blk ! ((y - nat (y1 + dy1)) * xsize + (x - nat (x1 + dx1))) else v) row)
          (bands out ! i))"
    unfolding sz by (rule WriteArray_inside [OF shb off fit])
  have px: "(if nat (y1 + dy1) \<le> y \<and> y < nat (y1 + dy1) + ysize
               \<and> nat (x1 + dx1) \<le> x \<and> x < nat (x1 + dx1) + xsize
            then data blk ! ((y - nat (y1 + dy1)) * xsize + (x - nat (x1 + dx1))) else v)
          = (if y1 + dy1 \<le> int y \<and> int y < y1 + T - dy2 \<and> x1 + dx1 \<le> int x \<and> int x < x1 + T - dx2
             then data result ! ((i * nat T + nat (int y - y1)) * nat T + nat (int x - x1)) else v)"
    for y x and v :: "8 word"
  proof -
    have c1: "(nat (y1 + dy1) \<le> y \<and> y < nat (y1 + dy1) + ysize)
                \<longleftrightarrow> (y1 + dy1 \<le> int y \<and> int y < y1 + T - dy2)"
      using off ty unfolding ysize_def by linarith
    have c2: "(nat (x1 + dx1) \<le> x \<and> x < nat (x1 + dx1) + xsize)
                \<longleftrightarrow> (x1 + dx1 \<le> int x \<and> int x < x1 + T - dx2)"
      using off tx unfolding xsize_def by linarith
    show ?thesis
    proof (cases "y1 + dy1 \<le> int y \<and> int y < y1 + T - dy2 \<and> x1 + dx1 \<le> int x \<and> int x < x1 + T - dx2")
      case True
      have r: "y - nat (y1 + dy1) < ysize" and k: "x - nat (x1 + dx1) < xsize"
        using True off ty tx unfolding ysize_def xsize_def by linarith+
      have e1: "nat dy1 + (y - nat (y1 + dy1)) = nat (int y - y1)"
        using True off ty wy by linarith
      have e2: "nat dx1 + (x - nat (x1 + dx1)) = nat (int x - x1)"
        using True off tx wx by linarith
      show ?thesis using True c1 c2 rd [OF r k] by (simp add: e1 e2)
    next
      case False
      then show ?thesis using c1 c2 by auto
    qed
  qed
  have "mapi (\<lambda>y row. mapi (\<lambda>x v.
            if nat (y1 + dy1) \<le> y \<and> y < nat (y1 + dy1) + ysize
               \<and> nat (x1 + dx1) \<le> x \<and> x < nat (x1 + dx1) + xsize
            then data blk ! ((y - nat (y1 + dy1)) * xsize + (x - nat (x1 + dx1))) else v) row)
          (bands out ! i)
        = paste result i (nat T) y1 x1 (y1 + dy1) (y1 + T - dy2) (x1 + dx1) (x1 + T - dx2)
            (bands out ! i)"
    unfolding paste_def px ..
  then show ?thesis
    using i(2) by (simp add: write_band_def bs wa)
qed

lemma write_bands_append:
  "write_bands f out (xs @ ys) =
     (case write_bands f out xs of
        (out', None) \<Rightarrow> write_bands f out' ys
      | (out', Some e) \<Rightarrow> (out', Some e))"
  by (induction xs arbitrary: out) (simp_all split: sum.splits)

lemma write_bands_upt:
  assumes step: "\<And>o' i. i < nb \<Longrightarrow> XSize o' = XSize out \<Longrightarrow> YSize o' = YSize out
                   \<Longrightarrow> length (bands o') = length (bands out)
                   \<Longrightarrow> f o' i = Inr (o'\<lparr>bands := (bands o')[i := g i (bands o' ! i)]\<rparr>)"
    and k: "k \<le> nb" and nb: "nb \<le> length (bands out)"
  shows "write_bands f out [0..<k] =
     (out\<lparr>bands := mapi (\<lambda>b band. if b < k then g b band else band) (bands out)\<rparr>, None)"
  using k
proof (induction k)
  case 0
  have "mapi (\<lambda>b band. band) (bands out) = bands out"
    by (simp add: mapi_def map_nth)
  then show ?case by simp
next
  case (Suc k)
  let ?o = "out\<lparr>bands := mapi (\<lambda>b band. if b < k then g b band else band) (bands out)\<rparr>"
  have IH: "write_bands f out [0..<k] = (?o, None)" using Suc by simp
  have kl: "k < nb" "k < length (bands out)" using Suc.prems nb by simp_all
  have st: "f ?o k = Inr (?o\<lparr>bands := (bands ?o)[k := g k (bands ?o ! k)]\<rparr>)"
    by (rule step [OF kl(1)]) (simp_all add: mapi_def)
  have bk: "mapi (\<lambda>b band. if b < k then g b band else band) (bands out) ! k = bands out ! k"
    using kl by (simp add: mapi_def)
  have upd: "(bands ?o)[k := g k (bands out ! k)]
       = mapi (\<lambda>b band. if b < Suc k then g b band else band) (bands out)"
    using kl by (auto simp: mapi_def nth_list_update less_Suc_eq intro!: nth_equalityI)
  have "write_bands f out ([0..<k] @ [k]) = write_bands f ?o [k]"
    by (simp add: write_bands_append IH)
  also have "\<dots> = (?o\<lparr>bands := (bands ?o)[k := g k (bands out ! k)]\<rparr>, None)"
    by (simp add: st bk)
  also have "?o\<lparr>bands := (bands ?o)[k := g k (bands out ! k)]\<rparr>
       = out\<lparr>bands := mapi (\<lambda>b band. if b < Suc k then g b band else band) (bands out)\<rparr>"
    using upd by simp
  finally show ?case by simp
qed

lemma get_next_SomeD:
  assumes "get_next s = (Inr (Some blk), s')"
  shows "s' = s\<lparr>window_i := window_i s + 1\<rparr>"
  using assms
  by (auto simp: get_next_def Let_def split: if_splits sum.splits prod.splits)

text \<open>
  C7: for the window \<open>[y1, y2, x1, x2]\<close> that \<open>get_next\<close> has just returned, lying
  inside the extent, and a result of \<open>T\<close> rows and columns per band, \<open>fit_result\<close>
  trims \<open>overlap // 2\<close> pixels from each side of the result except the sides on the
  boundary of the extent (\<open>y1 = 0\<close>, \<open>y2 = H\<close>, \<open>x1 = 0\<close>, \<open>x2 = W\<close>), which it
  does not trim, and every output band \<open>b\<close> becomes the band with
  \<open>result[b, y - y1, x - x1]\<close> pasted at the pixels \<open>(y, x)\<close> of the trimmed window;
  no other pixel changes, and no exception is raised.
\<close>

theorem fit_result_trim:
  assumes gn: "get_next st0 = (Inr (Some blk), st)"
    and w: "py_get (windows st0) (window_i st0) = Inr (y1, y2, x1, x2)"
    and ins: "inside (img_h st0) (img_w st0) (window_sz st0) (y1, y2, x1, x2)"
    and ov: "0 \<le> overlap st0" "overlap st0 \<le> window_sz st0"
    and ras: "XSize (out_raster st0) = nat (img_w st0)" "YSize (out_raster st0) = nat (img_h st0)"
      "nat (out_bands st0) \<le> length (bands (out_raster st0))"
    and res: "shape result = [n, nat (window_sz st0), nat (window_sz st0)]"
      "nat (out_bands st0) \<le> n"
  shows "fit_result st result =
     (let dy1 = (if y1 = 0 then 0 else overlap st0 div 2);
          dy2 = (if y2 = img_h st0 then 0 else overlap st0 div 2);
          dx1 = (if x1 = 0 then 0 else overlap st0 div 2);
          dx2 = (if x2 = img_w st0 then 0 else overlap st0 div 2)
      in (st\<lparr>out_raster := (out_raster st)\<lparr>bands :=
             mapi (\<lambda>b band. if b < nat (out_bands st0)
                     then paste result b (nat (window_sz st0)) y1 x1
                            (y1 + dy1) (y2 - dy2) (x1 + dx1) (x2 - dx2) band
                     else band) (bands (out_raster st))\<rparr>\<rparr>, None))"
proof -
  define T where "T = window_sz st0"
  define dy1 where "dy1 = (if y1 = 0 then 0 else overlap st0 div 2)"
  define dy2 where "dy2 = (if y2 = img_h st0 then 0 else overlap st0 div 2)"
  define dx1 where "dx1 = (if x1 = 0 then 0 else overlap st0 div 2)"
  define dx2 where "dx2 = (if x2 = img_w st0 then 0 else overlap st0 div 2)"
  define out where "out = out_raster st0"
  have st: "st = st0\<lparr>window_i := window_i st0 + 1\<rparr>"
    using gn by (rule get_next_SomeD)
  have half: "0 \<le> overlap st0 div 2" "2 * (overlap st0 div 2) \<le> overlap st0"
    using ov(1) by simp_all
  have ty: "0 \<le> dy1" "0 \<le> dy2" "dy1 + dy2 \<le> T"
    using half ov(2) unfolding dy1_def dy2_def T_def by (simp_all split: if_splits)
  have tx: "0 \<le> dx1" "0 \<le> dx2" "dx1 + dx2 \<le> T"
    using half ov(2) unfolding dx1_def dx2_def T_def by (simp_all split: if_splits)
  have win: "y2 = y1 + T" "x2 = x1 + T" "0 \<le> y1" "y1 + T \<le> img_h st0" "0 \<le> x1" "x1 + T \<le> img_w st0"
    using ins unfolding T_def by simp_all
  have step: "write_band result T dy1 dy2 dx1 dx2 x1 y1 o' i =
       Inr (o'\<lparr>bands := (bands o')[i := paste result i (nat T) y1 x1
              (y1 + dy1) (y1 + T - dy2) (x1 + dx1) (x1 + T - dx2) (bands o' ! i)]\<rparr>)"
    if "i < nat (out_bands st0)" "XSize o' = XSize out" "YSize o' = YSize out"
       "length (bands o') = length (bands out)" for o' i
  proof (rule write_band_paste [OF _ _ _ _ _ ty tx win(3,4) win(5,6)])
    show "shape result = [n, nat T, nat T]" using res(1) by (simp add: T_def)
    show "i < n" using that(1) res(2) by simp
    show "i < length (bands o')" using that(1,4) ras(3) by (simp add: out_def)
    show "XSize o' = nat (img_w st0)" using that(2) ras(1) by (simp add: out_def)
    show "YSize o' = nat (img_h st0)" using that(3) ras(2) by (simp add: out_def)
  qed
  have loop: "write_bands (write_band result T dy1 dy2 dx1 dx2 x1 y1) out [0..<nat (out_bands st0)] =
     (out\<lparr>bands := mapi (\<lambda>b band. if b < nat (out_bands st0)
              then paste result b (nat T) y1 x1 (y1 + dy1) (y1 + T - dy2) (x1 + dx1) (x1 + T - dx2) band
              else band) (bands out)\<rparr>, None)"
    by (rule write_bands_upt [where nb = "nat (out_bands st0)"])
       (use step ras(3) in \<open>simp_all add: out_def\<close>)
  have idx: "py_get (windows st) (window_i st - 1) = Inr (y1, y2, x1, x2)"
    using w by (simp add: st)
  have flds: "overlap st = overlap st0" "img_h st = img_h st0" "img_w st = img_w st0"
    "window_sz st = T" "out_bands st = out_bands st0" "out_raster st = out"
    by (simp_all add: st T_def out_def)
  have "fit_result st result =
     (case write_bands (write_band result T dy1 dy2 dx1 dx2 x1 y1) out [0..<nat (out_bands st0)] of
        (out', e) \<Rightarrow> (st\<lparr>out_raster := out'\<rparr>, e))"
    unfolding fit_result_def Let_def idx flds dy1_def dy2_def dx1_def dx2_def by simp
  then have "fit_result st result =
     (st\<lparr>out_raster := out\<lparr>bands := mapi (\<lambda>b band. if b < nat (out_bands st0)
              then paste result b (nat T) y1 x1 (y1 + dy1) (y1 + T - dy2) (x1 + dx1) (x1 + T - dx2) band
              else band) (bands out)\<rparr>\<rparr>, None)"
    by (simp add: loop)
  then show ?thesis
    unfolding Let_def flds(6) win(1,2) dy1_def dy2_def dx1_def dx2_def T_def .
qed

theorem fit_result_trim_witness:
  "get_next example_source
     = (Inr (Some \<lparr>shape = [1, 3, 3], data = [0, 255, 254, 255, 254, 253, 254, 253, 252]\<rparr>),
        example_source\<lparr>window_i := 1\<rparr>)
   \<and> py_get (windows example_source) (window_i example_source) = Inr (0, 3, 0, 3)
   \<and> inside (img_h example_source) (img_w example_source) (window_sz example_source) (0, 3, 0, 3)
   \<and> 0 \<le> overlap example_source \<and> overlap example_source \<le> window_sz example_source
   \<and> XSize (out_raster example_source) = nat (img_w example_source)
   \<and> YSize (out_raster example_source) = nat (img_h example_source)
   \<and> nat (out_bands example_source) \<le> length (bands (out_raster example_source))
   \<and> fit_result (example_source\<lparr>window_i := 1\<rparr>)
         \<lparr>shape = [1, 3, 3], data = [1, 2, 3, 4, 5, 6, 7, 8, 9]\<rparr>
       = (example_source\<lparr>window_i := 1, out_raster := \<lparr>XSize = 4, YSize = 3,
            bands = [[[1, 2, 0, 0], [4, 5, 0, 0], [7, 8, 0, 0]]]\<rparr>\<rparr>, None)"
proof -
  let ?res = "\<lparr>shape = [1, 3, 3], data = [1, 2, 3, 4, 5, 6, 7, 8, 9 :: 8 word]\<rparr>"
  have gn: "get_next example_source
     = (Inr (Some \<lparr>shape = [1, 3, 3], data = [0, 255, 254, 255, 254, 253, 254, 253, 252]\<rparr>),
        example_source\<lparr>window_i := 1\<rparr>)"
    by (simp add: get_next_def example_source_def example_reader_def py_get_def ndim_def
      astype_uint8_def upt_rec)
  have w: "py_get (windows example_source) (window_i example_source) = Inr (0, 3, 0, 3)"
    by (simp add: example_source_def py_get_def)
  have ins: "inside (img_h example_source) (img_w example_source) (window_sz example_source) (0, 3, 0, 3)"
    by (simp add: example_source_def)
  have ov: "0 \<le> overlap example_source" "overlap example_source \<le> window_sz example_source"
    by (simp_all add: example_source_def)
  have ras: "XSize (out_raster example_source) = nat (img_w example_source)"
    "YSize (out_raster example_source) = nat (img_h example_source)"
    "nat (out_bands example_source) \<le> length (bands (out_raster example_source))"
    by (simp_all add: example_source_def)
  have res: "shape ?res = [1, nat (window_sz example_source), nat (window_sz example_source)]"
    "nat (out_bands example_source) \<le> 1"
    by (simp_all add: example_source_def)
  have "fit_result (example_source\<lparr>window_i := 1\<rparr>) ?res
       = (example_source\<lparr>window_i := 1, out_raster := \<lparr>XSize = 4, YSize = 3,
            bands = [[[1, 2, 0, 0], [4, 5, 0, 0], [7, 8, 0, 0]]]\<rparr>\<rparr>, None)"
    unfolding fit_result_trim [OF gn w ins ov ras res]
    by (simp add: example_source_def paste_def mapi_def upt_rec)
  then show ?thesis using gn w ins ov ras by blast
qed

text \<open>
  One round of the band loop either fails for a reason that the raster's extents and band
  count decide, or replaces band \<open>i\<close> by a function of that band; writing twice is
  writing once.
\<close>

lemma write_band_static:
  "\<exists>chk G. (\<forall>out i. write_band result T dy1 dy2 dx1 dx2 x1 y1 out i =
                (case chk (XSize out) (YSize out) (length (bands out)) i of
                   Some e \<Rightarrow> Inl e
                 | None \<Rightarrow> Inr (out\<lparr>bands := (bands out)[i := G i (bands out ! i)]\<rparr>)))
           \<and> (\<forall>i band. G i (G i band) = G i band)"
proof -
  define blk where "blk i = band_slice result i dy1 (T - dy2) dx1 (T - dx2)" for i
  define chk where "chk X Y L i =
     (if \<not> i < L then Some AttributeError
      else case blk i of
        Inl e \<Rightarrow> Some e
      | Inr b \<Rightarrow>
          (case shape b of
             [ysize, xsize] \<Rightarrow>
               if int xsize + (x1 + dx1) > int X \<or> int ysize + (y1 + dy1) > int Y then Some ValueError
               else if x1 + dx1 < 0 \<or> y1 + dy1 < 0 then Some RuntimeError
               else None
           | _ \<Rightarrow> Some ValueError))" for X Y :: nat and L i :: nat
  define F where "F b ysize xsize y x v =
     (if nat (y1 + dy1) \<le> y \<and> y < nat (y1 + dy1) + ysize \<and> nat (x1 + dx1) \<le> x \<and> x < nat (x1 + dx1) + xsize
      then data b ! ((y - nat (y1 + dy1)) * xsize + (x - nat (x1 + dx1))) else v)"
    for b :: "8 word ndarray" and ysize xsize y x :: nat and v :: "8 word"
  define G where "G i band =
     (case blk i of
        Inl e \<Rightarrow> band
      | Inr b \<Rightarrow>
          (case shape b of
             [ysize, xsize] \<Rightarrow> mapi (\<lambda>y row. mapi (F b ysize xsize y) row) band
           | _ \<Rightarrow> band))" for i :: nat and band :: "8 word list list"
  have FF: "F b ysize xsize y x (F b ysize xsize y x v) = F b ysize xsize y x v"
    for b ysize xsize y x v
    by (simp add: F_def)
  have idem: "G i (G i band) = G i band" for i band
    by (simp add: G_def mapi_mapi FF split: sum.splits list.splits)
  have eq: "write_band result T dy1 dy2 dx1 dx2 x1 y1 out i =
                (case chk (XSize out) (YSize out) (length (bands out)) i of
                   Some e \<Rightarrow> Inl e
                 | None \<Rightarrow> Inr (out\<lparr>bands := (bands out)[i := G i (bands out ! i)]\<rparr>))" for out i
    unfolding write_band_def blk_def [symmetric]
    by (simp add: chk_def G_def WriteArray_def F_def [abs_def] split: sum.splits list.splits)
  show ?thesis using eq idem by blast
qed

lemma write_bands_again:
  assumes f: "\<And>out i. f out i =
                (case chk (XSize out) (YSize out) (length (bands out)) i of
                   Some e \<Rightarrow> Inl e
                 | None \<Rightarrow> Inr (out\<lparr>bands := (bands out)[i := G i (bands out ! i)]\<rparr>))"
    and idem: "\<And>i band. G i (G i band) = G i band"
    and run: "write_bands f out is = (out', e)"
  shows "write_bands f out' is = (out', e)"
proof -
  define step where "step i out = out\<lparr>bands := (bands out)[i := G i (bands out ! i)]\<rparr>"
    for i :: nat and out :: writer
  define X Y L where "X = XSize out" and "Y = YSize out" and "L = length (bands out)"
  define frame where "frame out \<longleftrightarrow> XSize out = X \<and> YSize out = Y \<and> length (bands out) = L"
    for out :: writer
  define ps where "ps = takeWhile (\<lambda>i. chk X Y L i = None) is"
  define err where "err = (case dropWhile (\<lambda>i. chk X Y L i = None) is of
                             [] \<Rightarrow> None | i # _ \<Rightarrow> chk X Y L i)"
  have frame_step: "frame (step i out)" if "frame out" for i out
    using that by (simp add: frame_def step_def)
  have frame_fold: "frame (fold step js out)" if "frame out" for js out
    using that by (induction js arbitrary: out) (simp_all add: frame_step)
  have runs: "write_bands f out js =
      (fold step (takeWhile (\<lambda>i. chk X Y L i = None) js) out,
       case dropWhile (\<lambda>i. chk X Y L i = None) js of [] \<Rightarrow> None | i # _ \<Rightarrow> chk X Y L i)"
    if "frame out" for out js
    using that
  proof (induction js arbitrary: out)
    case Nil
    then show ?case by simp
  next
    case (Cons j js)
    have fj: "f out j = (case chk X Y L j of Some e \<Rightarrow> Inl e | None \<Rightarrow> Inr (step j out))"
      using Cons.prems by (simp add: f frame_def step_def split: option.splits)
    show ?case
    proof (cases "chk X Y L j")
      case None
      then show ?thesis
        using Cons.IH [OF frame_step [OF Cons.prems], of j] by (simp add: fj)
    next
      case (Some e')
      then show ?thesis by (simp add: fj)
    qed
  qed
  have comm: "step i (step j out) = step j (step i out)" for i j out
  proof (cases "i = j")
    case True
    then show ?thesis by simp
  next
    case False
    then show ?thesis by (simp add: step_def list_update_swap)
  qed
  have twice: "step i (step i out) = step i out" for i out
    by (cases "i < length (bands out)") (simp_all add: step_def idem list_update_beyond)
  have fold_comm: "fold step js (step i out) = step i (fold step js out)" for js i out
  proof (induction js arbitrary: out)
    case Nil
    then show ?case by simp
  next
    case (Cons a js)
    have "fold step (a # js) (step i out) = fold step js (step i (step a out))"
      by (simp add: comm [of a i])
    also have "\<dots> = step i (fold step js (step a out))"
      by (rule Cons.IH)
    finally show ?case by simp
  qed
  have fold_twice: "fold step js (fold step js out) = fold step js out" for js out
  proof (induction js arbitrary: out)
    case Nil
    then show ?case by simp
  next
    case (Cons j js)
    have "fold step (j # js) (fold step (j # js) out) = fold step js (step j (fold step js (step j out)))"
      by simp
    also have "\<dots> = fold step js (fold step js (step j (step j out)))"
      by (simp add: fold_comm)
    also have "\<dots> = fold step js (step j out)"
      by (simp add: twice Cons.IH)
    finally show ?case by simp
  qed
  have fr: "frame out" by (simp add: frame_def X_def Y_def L_def)
  have r1: "out' = fold step ps out" "e = err"
    using run runs [OF fr, of "is"] by (simp_all add: ps_def err_def)
  have "write_bands f out' is = (fold step ps out', err)"
    unfolding ps_def err_def by (rule runs) (simp add: r1 frame_fold fr)
  then show ?thesis by (simp add: r1 fold_twice)
qed

text \<open>
  C5 (as amended): \<open>fit_result\<close> has no check of the cursor. Before any \<open>get_next\<close>, on
  a non-empty grid, it does what it does when the cursor stands behind the last window:
  index \<open>-1\<close> is the last window. It raises then only on an empty grid, an IndexError.
  Called again for the same window it ends as the call before ended, with the raster as
  that call left it.
\<close>

theorem fit_result_no_state_check:
  "(window_i st = 0 \<and> windows st \<noteq> [] \<longrightarrow>
      fit_result st result =
        (case fit_result (st\<lparr>window_i := int (length (windows st))\<rparr>) result of
           (st', e) \<Rightarrow> (st'\<lparr>window_i := 0\<rparr>, e)))
   \<and> (window_i st = 0 \<and> windows st = [] \<longrightarrow> fit_result st result = (st, Some IndexError))
   \<and> (fit_result st result = (st', e) \<longrightarrow> fit_result st' result = (st', e))"
proof (intro conjI impI)
  assume a: "window_i st = 0 \<and> windows st \<noteq> []"
  then have "py_get (windows st) (- 1) = py_get (windows st) (int (length (windows st)) - 1)"
    by (simp add: py_get_last)
  then show "fit_result st result =
        (case fit_result (st\<lparr>window_i := int (length (windows st))\<rparr>) result of
           (st', e) \<Rightarrow> (st'\<lparr>window_i := 0\<rparr>, e))"
    using a by (simp add: fit_result_def Let_def split: sum.splits prod.splits)
next
  assume "window_i st = 0 \<and> windows st = []"
  then show "fit_result st result = (st, Some IndexError)"
    by (simp add: fit_result_def py_get_def)
next
  assume run: "fit_result st result = (st', e)"
  show "fit_result st' result = (st', e)"
  proof (cases "py_get (windows st) (window_i st - 1)")
    case (Inl err)
    then show ?thesis using run by (auto simp: fit_result_def)
  next
    case (Inr win)
    obtain y1 y2 x1 x2 where win: "win = (y1, y2, x1, x2)" by (cases win) auto
    define dy1 where "dy1 = (if y1 = 0 then 0 else overlap st div 2)"
    define dy2 where "dy2 = (if y2 = img_h st then 0 else overlap st div 2)"
    define dx1 where "dx1 = (if x1 = 0 then 0 else overlap st div 2)"
    define dx2 where "dx2 = (if x2 = img_w st then 0 else overlap st div 2)"
    define f where "f = write_band result (window_sz st) dy1 dy2 dx1 dx2 x1 y1"
    obtain out' e' where wb: "write_bands f (out_raster st) [0..<nat (out_bands st)] = (out', e')"
      by (cases "write_bands f (out_raster st) [0..<nat (out_bands st)]") auto
    have fr: "fit_result s result =
        (case write_bands f (out_raster s) [0..<nat (out_bands st)] of
           (out', e) \<Rightarrow> (s\<lparr>out_raster := out'\<rparr>, e))"
      if "py_get (windows s) (window_i s - 1) = Inr win" "overlap s = overlap st"
         "img_h s = img_h st" "img_w s = img_w st" "window_sz s = window_sz st"
         "out_bands s = out_bands st" for s
      using that unfolding fit_result_def Let_def f_def dy1_def dy2_def dx1_def dx2_def win
      by simp
    have st': "st' = st\<lparr>out_raster := out'\<rparr>" and e: "e = e'"
      using run fr [of st] Inr wb by simp_all
    obtain chk G where
      f: "\<And>out i. f out i =
                (case chk (XSize out) (YSize out) (length (bands out)) i of
                   Some e \<Rightarrow> Inl e
                 | None \<Rightarrow> Inr (out\<lparr>bands := (bands out)[i := G i (bands out ! i)]\<rparr>))"
      and idem: "\<And>i band. G i (G i band) = G i band"
      using write_band_static [of result "window_sz st" dy1 dy2 dx1 dx2 x1 y1]
      unfolding f_def by blast
    have again: "write_bands f out' [0..<nat (out_bands st)] = (out', e')"
      using f idem wb by (rule write_bands_again)
    have "fit_result st' result =
        (case write_bands f (out_raster st') [0..<nat (out_bands st)] of
           (out', e) \<Rightarrow> (st'\<lparr>out_raster := out'\<rparr>, e))"
      by (rule fr) (simp_all add: st' Inr)
    then show ?thesis by (simp add: st' again e)
  qed
qed

theorem fit_result_no_state_check_witness:
  "window_i example_source = 0 \<and> windows example_source \<noteq> []
   \<and> fit_result example_source \<lparr>shape = [1, 3, 3], data = [1, 2, 3, 4, 5, 6, 7, 8, 9]\<rparr>
       = (case fit_result (example_source\<lparr>window_i := int (length (windows example_source))\<rparr>)
                 \<lparr>shape = [1, 3, 3], data = [1, 2, 3, 4, 5, 6, 7, 8, 9]\<rparr> of
            (st', e) \<Rightarrow> (st'\<lparr>window_i := 0\<rparr>, e))
   \<and> window_i (example_source\<lparr>windows := []\<rparr>) = 0 \<and> windows (example_source\<lparr>windows := []\<rparr>) = []
   \<and> fit_result (example_source\<lparr>windows := []\<rparr>) \<lparr>shape = [1, 3, 3], data = [1, 2, 3, 4, 5, 6, 7, 8, 9]\<rparr>
       = (example_source\<lparr>windows := []\<rparr>, Some IndexError)
   \<and> fit_result example_source \<lparr>shape = [1, 3, 3], data = [1, 2, 3, 4, 5, 6, 7, 8, 9]\<rparr>
       = (example_source\<lparr>out_raster := \<lparr>XSize = 4, YSize = 3,
            bands = [[[0, 0, 2, 3], [0, 0, 5, 6], [0, 0, 8, 9]]]\<rparr>\<rparr>, None)
   \<and> fit_result (example_source\<lparr>out_raster := \<lparr>XSize = 4, YSize = 3,
            bands = [[[0, 0, 2, 3], [0, 0, 5, 6], [0, 0, 8, 9]]]\<rparr>\<rparr>)
         \<lparr>shape = [1, 3, 3], data = [1, 2, 3, 4, 5, 6, 7, 8, 9]\<rparr>
       = (example_source\<lparr>out_raster := \<lparr>XSize = 4, YSize = 3,
            bands = [[[0, 0, 2, 3], [0, 0, 5, 6], [0, 0, 8, 9]]]\<rparr>\<rparr>, None)"
proof -
  let ?R = "\<lparr>shape = [1, 3, 3], data = [1, 2, 3, 4, 5, 6, 7, 8, 9 :: 8 word]\<rparr>"
  let ?W = "example_source\<lparr>out_raster := \<lparr>XSize = 4, YSize = 3,
            bands = [[[0, 0, 2, 3], [0, 0, 5, 6], [0, 0, 8, 9]]]\<rparr>\<rparr>"
  have a: "window_i example_source = 0 \<and> windows example_source \<noteq> []"
    by (simp add: example_source_def)
  have b: "window_i (example_source\<lparr>windows := []\<rparr>) = 0 \<and> windows (example_source\<lparr>windows := []\<rparr>) = []"
    by (simp add: example_source_def)
  have run: "fit_result example_source ?R = (?W, None)"
    by (simp add: fit_result_def example_source_def py_get_def write_band_def band_slice_def
      py_slice_def slice_index_def WriteArray_def mapi_def upt_rec)
  show ?thesis
    using fit_result_no_state_check [of example_source ?R ?W None]
      fit_result_no_state_check [of "example_source\<lparr>windows := []\<rparr>" ?R] a b run
    by blast
qed

text \<open>
  C5 as stated asks for a failure. On the example manager, fresh from \<open>__init__\<close>,
  \<open>fit_result\<close> raises nothing and writes the result to the raster, trimmed for the last
  window \<open>[0, 3, 1, 4]\<close>.
\<close>

theorem fit_result_fresh:
  "window_i example_source = 0
   \<and> fit_result example_source \<lparr>shape = [1, 3, 3], data = [1, 2, 3, 4, 5, 6, 7, 8, 9]\<rparr>
       = (example_source\<lparr>out_raster := \<lparr>XSize = 4, YSize = 3,
            bands = [[[0, 0, 2, 3], [0, 0, 5, 6], [0, 0, 8, 9]]]\<rparr>\<rparr>, None)"
  by (simp add: fit_result_def example_source_def py_get_def write_band_def band_slice_def
      py_slice_def slice_index_def WriteArray_def mapi_def upt_rec)

text \<open>
  C6: \<open>get_next\<close> is to raise when a pixel of the block is above 255. The assertion of
  the source compares with 256: the block of the first window of the example raster has
  the maximum 256, and \<open>get_next\<close> returns it as bytes, the pixel 256 turned into 0.
\<close>

theorem get_next_accepts_256:
  "amax (data (ReadAsArray example_reader 0 0 3 3)) = Inr 256
   \<and> get_next example_source
       = (Inr (Some \<lparr>shape = [1, 3, 3], data = [0, 255, 254, 255, 254, 253, 254, 253, 252]\<rparr>),
          example_source\<lparr>window_i := 1\<rparr>)"
  by (simp add: get_next_def example_source_def example_reader_def py_get_def ndim_def
      astype_uint8_def upt_rec)

section \<open>Properties of the weighted accumulator\<close>

text \<open>
  C10: for every \<open>preds\<close> whose number of dimensions is not 4, \<open>update\<close> raises
  before the loop and leaves the manager, with both buffers, as it was.
\<close>

theorem update_ndim_check:
  "ndim preds \<noteq> 4 \<Longrightarrow> update self preds wins = (self, Some AttributeError)"
  by (simp add: update_def)

theorem update_ndim_check_witness:
  "ndim \<lparr>shape = [1, 2, 2], data = [1, 2, 3, 4::real]\<rparr> \<noteq> 4
   \<and> update example_manager \<lparr>shape = [1, 2, 2], data = [1, 2, 3, 4]\<rparr> [(0, 2, 0, 2)]
       = (example_manager, Some AttributeError)"
  using update_ndim_check [of "\<lparr>shape = [1, 2, 2], data = [1, 2, 3, 4]\<rparr>" example_manager "[(0, 2, 0, 2)]"]
  by (simp add: ndim_def)













lemma invar_init:
  assumes "WeightedPredictManager_init H W C ph pw = Inr st" and "0 \<le> ph" "0 \<le> pw"
  shows "invar st"
  using assms
  by (auto simp: WeightedPredictManager_init_def zeros_def invar_def split: if_splits sum.splits)

lemma init_example_manager: "WeightedPredictManager_init 3 3 1 2 2 = Inr example_manager"
  by (simp add: WeightedPredictManager_init_def zeros_def example_manager_def
      kernel_def bordered_ones_def Let_def zero_cells_def distance_transform_edt_def mapi_def crop_def sq_dist_def upt_rec numeral_eq_Suc)















end
